theory Spec2Isabelle
  imports Complex_Main
begin

section \<open>The SatNOGS SSTV checker: data model\<close>

text \<open>
  The program (\<^verbatim>\<open>satnogs_sstv_requester.py\<close>) asks the SatNOGS API for observations,
  downloads every demodulated image, scores it with the variance of its Laplacian and
  removes the files it takes for static.  It talks to three things outside itself: the
  network (\<^verbatim>\<open>requests.get\<close>), the file system (\<^verbatim>\<open>os.makedirs\<close>, \<^verbatim>\<open>open\<close>,
  \<^verbatim>\<open>os.remove\<close>, \<^verbatim>\<open>cv2.imread\<close>) and the console (\<^verbatim>\<open>print\<close>).  The model threads
  a state through the code that holds the file system and the list of calls completed
  so far; the network and OpenCV are parameters.  A string is the list of its UTF-8
  bytes.  The file system is a map from the paths the program uses to what they name;
  it has no permissions and no quota, so a call fails only for what its path names or
  how the path is spelt.
\<close>

type_synonym bytes = string
type_synonym path = string

text \<open>A path names a directory, a regular file with its bytes, or nothing.\<close>

datatype node = Dir | File bytes

type_synonym filesystem = "path \<rightharpoonup> node"

text \<open>The exceptions the calls of the program can raise; none is caught anywhere.\<close>

datatype error =
    FileExistsError path
  | FileNotFoundError path
  | IsADirectoryError path
  | NameTooLong path
  | ValueError
  | KeyError string
  | JSONDecodeError
  | Cv2Error

text \<open>
  The JSON records of the API, read the way the code reads them: \<^verbatim>\<open>obs["id"]\<close> and
  \<^verbatim>\<open>data["payload_demod"]\<close> index a key (absent: \<open>None\<close> here, \<^verbatim>\<open>KeyError\<close> there),
  \<^verbatim>\<open>obs.get("demoddata", [])\<close> reads a key that may be absent.
\<close>

record payload =
  payload_demod :: "string option"

record observation =
  obs_id :: "int option"
  demoddata :: "payload list option"

text \<open>The query parameters: a dict with its keys in insertion order.\<close>

datatype pvalue = PInt int | PStr string

type_synonym params = "(string \<times> pvalue) list"

text \<open>
  What \<^verbatim>\<open>requests.get\<close> returns: the status, the body, and the body parsed by
  \<^verbatim>\<open>response.json()\<close> (\<open>None\<close> when the body is not JSON).
\<close>

record response =
  status_code :: int
  content :: bytes
  json :: "observation list option"

text \<open>
  What OpenCV's grayscale decoder does with the bytes of a file: it raises
  \<^verbatim>\<open>cv2.error\<close> (a header that declares more than \<open>2^30\<close> pixels), it gives up and
  \<^verbatim>\<open>cv2.imread\<close> returns \<^verbatim>\<open>None\<close>, or it yields an image.
\<close>

datatype 'img imread = ImreadRaises | ImreadNone | ImreadImage 'img

text \<open>
  The world outside: the server's answer to a GET, the decoder, and
  \<^verbatim>\<open>cv2.Laplacian(img, cv2.CV_64F).var()\<close>, over any type \<open>'img\<close> of decoded images.
  Every request is answered with a status: a host that cannot be reached is outside the
  model.  The variance is a finite double, read as the real number it denotes, so that
  the comparison with the threshold is exact.
\<close>

record 'img env =
  requests_get :: "string \<Rightarrow> params \<Rightarrow> response"
  decode :: "bytes \<Rightarrow> 'img imread"
  laplacian_var :: "'img \<Rightarrow> real"

text \<open>The lines the program prints, by their format string.\<close>

datatype message =
    Downloaded path
  | FailedDownload string int
  | ErrorLoading path
  | VarianceOf path real
  | FailedRetrieve int
  | Processing int
  | AppearsStatic path
  | ContainsContent path

text \<open>The calls that reach outside, logged when they return normally.\<close>

datatype event =
    MakeDirs path
  | HttpGet string params
  | FileWrite path bytes
  | ImRead path
  | FileRemove path
  | Print message

record state =
  fs :: filesystem
  trace :: "event list"

type_synonym 'a result = "(error + 'a) \<times> state"

datatype verdict = STATIC | CONTENT

section \<open>Library calls\<close>

definition emit :: "event \<Rightarrow> state \<Rightarrow> state" where
  "emit e s = s\<lparr>trace := trace s @ [e]\<rparr>"

text \<open>
  \<^verbatim>\<open>s.split(sep)\<close> for a one-character separator: the pieces between the separators,
  never an empty list (so the first case of the inner \<open>case\<close> is never taken, and
  \<^verbatim>\<open>[-1]\<close>, the last piece, always exists).
\<close>

fun str_split :: "char \<Rightarrow> string \<Rightarrow> string list" where
  "str_split c [] = [[]]"
| "str_split c (x # xs) =
     (if x = c then [] # str_split c xs
      else (case str_split c xs of
              [] \<Rightarrow> [[x]]
            | w # ws \<Rightarrow> (x # w) # ws))"

text \<open>\<^verbatim>\<open>os.path.join(a, b)\<close> on POSIX, for two components.\<close>

definition os_path_join :: "path \<Rightarrow> path \<Rightarrow> path" where
  "os_path_join a b =
     (if b \<noteq> [] \<and> hd b = CHR ''/'' then b
      else if a = [] \<or> last a = CHR ''/'' then a @ b
      else a @ ''/'' @ b)"

text \<open>
  The limits of a file name: no NUL byte (Python raises \<^verbatim>\<open>ValueError\<close> before any
  system call) and at most \<^verbatim>\<open>NAME_MAX\<close> bytes (the system call fails with
  \<^verbatim>\<open>OSError 36\<close>, file name too long).  A plain name is one component of a path
  that can name a new entry of a directory.
\<close>

definition NUL :: char where
  "NUL = CHR 0x00"

definition NAME_MAX :: nat where
  "NAME_MAX = 255"

definition plain_name :: "string \<Rightarrow> bool" where
  "plain_name n =
     (n \<noteq> [] \<and> n \<noteq> ''.'' \<and> n \<noteq> ''..'' \<and> CHR ''/'' \<notin> set n \<and> NUL \<notin> set n
      \<and> length n \<le> NAME_MAX)"

text \<open>
  \<^verbatim>\<open>os.makedirs(d, exist_ok=True)\<close> for a directory \<open>d\<close> given by one plain name, as
  the program's \<^verbatim>\<open>satnogs_images\<close> is: it creates the directory, accepts one that
  exists, and raises when the name is empty, too long, holds a NUL byte, or names a
  regular file.  A path of several components (parents to create, a parent that is a
  regular file) and the names \<^verbatim>\<open>.\<close> and \<^verbatim>\<open>..\<close> are outside this model: every
  property below is stated for a plain name, and those of the claims for the
  program's own directory.
\<close>

definition os_makedirs :: "path \<Rightarrow> state \<Rightarrow> unit result" where
  "os_makedirs d s =
     (if NUL \<in> set d then (Inl ValueError, s)
      else if d = [] then (Inl (FileNotFoundError d), s)
      else if NAME_MAX < length d then (Inl (NameTooLong d), s)
      else (case fs s d of
              None \<Rightarrow> (Inr (), emit (MakeDirs d) (s\<lparr>fs := (fs s)(d \<mapsto> Dir)\<rparr>))
            | Some Dir \<Rightarrow> (Inr (), emit (MakeDirs d) s)
            | Some (File b) \<Rightarrow> (Inl (FileExistsError d), s)))"

text \<open>
  \<^verbatim>\<open>with open(p, "wb") as f: f.write(b)\<close>, for a path whose parent directory exists
  (\<open>os_makedirs\<close> has just returned): the file is created or truncated and holds \<open>b\<close>
  afterwards.  Opening fails when the path holds a NUL byte, when it names a directory
  (an entry that is one, or a last component that is empty, \<^verbatim>\<open>.\<close> or \<^verbatim>\<open>..\<close>), and
  when its last component is longer than \<^verbatim>\<open>NAME_MAX\<close>; nothing is written then.
\<close>

definition names_directory :: "filesystem \<Rightarrow> path \<Rightarrow> bool" where
  "names_directory f p =
     (f p = Some Dir \<or> last (str_split CHR ''/'' p) \<in> {[], ''.'', ''..''})"

definition write_file :: "path \<Rightarrow> bytes \<Rightarrow> state \<Rightarrow> unit result" where
  "write_file p b s =
     (if NUL \<in> set p then (Inl ValueError, s)
      else if names_directory (fs s) p then (Inl (IsADirectoryError p), s)
      else if NAME_MAX < length (last (str_split CHR ''/'' p)) then (Inl (NameTooLong p), s)
      else (Inr (), emit (FileWrite p b) (s\<lparr>fs := (fs s)(p \<mapsto> File b)\<rparr>)))"

text \<open>\<^verbatim>\<open>os.remove(p)\<close>: removes a regular file, raises on anything else.\<close>

definition os_remove :: "path \<Rightarrow> state \<Rightarrow> unit result" where
  "os_remove p s =
     (case fs s p of
        None \<Rightarrow> (Inl (FileNotFoundError p), s)
      | Some Dir \<Rightarrow> (Inl (IsADirectoryError p), s)
      | Some (File b) \<Rightarrow> (Inr (), emit (FileRemove p) (s\<lparr>fs := (fs s)(p := None)\<rparr>)))"

text \<open>
  \<^verbatim>\<open>cv2.imread(p, cv2.IMREAD_GRAYSCALE)\<close>: what the decoder makes of the bytes of the
  file at \<open>p\<close>, and \<^verbatim>\<open>None\<close> when there is no such file.  When the decoder raises,
  the call does not return and nothing is logged.
\<close>

definition cv2_imread :: "'img env \<Rightarrow> path \<Rightarrow> state \<Rightarrow> 'img option result" where
  "cv2_imread env p s =
     (case fs s p of
        Some (File b) \<Rightarrow>
          (case decode env b of
             ImreadRaises \<Rightarrow> (Inl Cv2Error, s)
           | ImreadNone \<Rightarrow> (Inr None, emit (ImRead p) s)
           | ImreadImage img \<Rightarrow> (Inr (Some img), emit (ImRead p) s))
      | _ \<Rightarrow> (Inr None, emit (ImRead p) s))"

section \<open>The program\<close>

definition API_URL :: string where
  "API_URL = ''https://network.satnogs.org/api/observations/''"

definition default_save_dir :: path where
  "default_save_dir = ''satnogs_images''"

definition default_threshold :: real where
  "default_threshold = 20000"

text \<open>
  \<^verbatim>\<open>download_image(image_url, save_dir)\<close>: the directory is made first, then the GET is
  sent; a 200 answer is written to \<open>save_dir/<last segment of the URL>\<close> and the path
  returned, any other status is printed and \<^verbatim>\<open>None\<close> returned.
\<close>

definition download_image :: "'img env \<Rightarrow> string \<Rightarrow> path \<Rightarrow> state \<Rightarrow> path option result" where
  "download_image env image_url save_dir s =
     (case os_makedirs save_dir s of
        (Inl e, s1) \<Rightarrow> (Inl e, s1)
      | (Inr _, s1) \<Rightarrow>
          (let image_name = last (str_split CHR ''/'' image_url);
               save_path = os_path_join save_dir image_name;
               response = requests_get env image_url [];
               s2 = emit (HttpGet image_url []) s1
           in if status_code response = 200 then
                (case write_file save_path (content response) s2 of
                   (Inl e, s3) \<Rightarrow> (Inl e, s3)
                 | (Inr _, s3) \<Rightarrow> (Inr (Some save_path), emit (Print (Downloaded save_path)) s3))
              else
                (Inr None,
                 emit (Print (FailedDownload image_url (status_code response))) s2)))"

text \<open>
  \<^verbatim>\<open>is_static_image(image_path, threshold)\<close>: \<^verbatim>\<open>True\<close> when \<^verbatim>\<open>cv2.imread\<close> returns
  \<^verbatim>\<open>None\<close>, and otherwise the value of \<^verbatim>\<open>laplacian_var > threshold\<close>.  An exception
  of \<^verbatim>\<open>cv2.imread\<close> is not caught.
\<close>

definition is_static_image :: "'img env \<Rightarrow> path \<Rightarrow> real \<Rightarrow> state \<Rightarrow> bool result" where
  "is_static_image env image_path threshold s =
     (case cv2_imread env image_path s of
        (Inl e, s1) \<Rightarrow> (Inl e, s1)
      | (Inr None, s1) \<Rightarrow> (Inr True, emit (Print (ErrorLoading image_path)) s1)
      | (Inr (Some img), s1) \<Rightarrow>
          (let lv = laplacian_var env img
           in (Inr (lv > threshold), emit (Print (VarianceOf image_path lv)) s1)))"

text \<open>
  Lines 82 to 86 of \<^verbatim>\<open>get_sstv_images\<close>, the specification's classifyAndCurate: the
  file is removed when \<open>is_static_image\<close> answers \<^verbatim>\<open>True\<close> and left alone otherwise.
  The program always passes the default threshold.
\<close>

definition classify_and_curate :: "'img env \<Rightarrow> path \<Rightarrow> real \<Rightarrow> state \<Rightarrow> verdict result" where
  "classify_and_curate env image_path threshold s =
     (case is_static_image env image_path threshold s of
        (Inl e, s1) \<Rightarrow> (Inl e, s1)
      | (Inr True, s1) \<Rightarrow>
          (case os_remove image_path (emit (Print (AppearsStatic image_path)) s1) of
             (Inl e, s2) \<Rightarrow> (Inl e, s2)
           | (Inr _, s2) \<Rightarrow> (Inr STATIC, s2))
      | (Inr False, s1) \<Rightarrow> (Inr CONTENT, emit (Print (ContainsContent image_path)) s1))"

text \<open>
  The body of the inner loop (lines 78 to 86).  \<^verbatim>\<open>if image_path:\<close> holds for a
  string that is not empty.
\<close>

definition process_payload :: "'img env \<Rightarrow> payload \<Rightarrow> state \<Rightarrow> unit result" where
  "process_payload env data s =
     (case payload_demod data of
        None \<Rightarrow> (Inl (KeyError ''payload_demod''), s)
      | Some image_url \<Rightarrow>
          (case download_image env image_url default_save_dir s of
             (Inl e, s1) \<Rightarrow> (Inl e, s1)
           | (Inr None, s1) \<Rightarrow> (Inr (), s1)
           | (Inr (Some image_path), s1) \<Rightarrow>
               (if image_path \<noteq> [] then
                  (case classify_and_curate env image_path default_threshold s1 of
                     (Inl e, s2) \<Rightarrow> (Inl e, s2)
                   | (Inr _, s2) \<Rightarrow> (Inr (), s2))
                else (Inr (), s1))))"

text \<open>\<^verbatim>\<open>for data in decoded_data\<close>: an exception ends the loop and the run.\<close>

fun process_payloads :: "'img env \<Rightarrow> payload list \<Rightarrow> state \<Rightarrow> unit result" where
  "process_payloads env [] s = (Inr (), s)"
| "process_payloads env (data # rest) s =
     (case process_payload env data s of
        (Inl e, s1) \<Rightarrow> (Inl e, s1)
      | (Inr _, s1) \<Rightarrow> process_payloads env rest s1)"

text \<open>The body of the outer loop (lines 72 to 86).\<close>

definition process_observation :: "'img env \<Rightarrow> observation \<Rightarrow> state \<Rightarrow> unit result" where
  "process_observation env obs s =
     (case obs_id obs of
        None \<Rightarrow> (Inl (KeyError ''id''), s)
      | Some observation_id \<Rightarrow>
          (let s1 = emit (Print (Processing observation_id)) s;
               decoded_data = (case demoddata obs of None \<Rightarrow> [] | Some ds \<Rightarrow> ds)
           in process_payloads env decoded_data s1))"

text \<open>\<^verbatim>\<open>for obs in observations\<close>, the specification's processObservations.\<close>

fun process_observations :: "'img env \<Rightarrow> observation list \<Rightarrow> state \<Rightarrow> unit result" where
  "process_observations env [] s = (Inr (), s)"
| "process_observations env (obs # rest) s =
     (case process_observation env obs s of
        (Inl e, s1) \<Rightarrow> (Inl e, s1)
      | (Inr _, s1) \<Rightarrow> process_observations env rest s1)"

text \<open>
  \<^verbatim>\<open>get_sstv_images(station_id, satellite_id, start_date, end_date, limit)\<close>.  A date
  is carried as the string \<^verbatim>\<open>isoformat()\<close> gives for it, which is all the program does
  with it; \<open>None\<close> is Python's \<^verbatim>\<open>None\<close>.
\<close>

definition query_params :: "int \<Rightarrow> int \<Rightarrow> string option \<Rightarrow> string option \<Rightarrow> int \<Rightarrow> params" where
  "query_params station_id satellite_id start_date end_date limit =
     [(''norad_cat_id'', PInt satellite_id),
      (''ground_station'', PInt station_id),
      (''status'', PStr ''good''),
      (''limit'', PInt limit),
      (''transmitter_mode'', PStr ''SSTV'')]
     @ (case start_date of None \<Rightarrow> [] | Some d \<Rightarrow> [(''start'', PStr d)])
     @ (case end_date of None \<Rightarrow> [] | Some d \<Rightarrow> [(''end'', PStr d)])"

definition get_sstv_images ::
  "'img env \<Rightarrow> int \<Rightarrow> int \<Rightarrow> string option \<Rightarrow> string option \<Rightarrow> int \<Rightarrow> state \<Rightarrow> unit result" where
  "get_sstv_images env station_id satellite_id start_date end_date limit s =
     (let params = query_params station_id satellite_id start_date end_date limit;
          response = requests_get env API_URL params;
          s1 = emit (HttpGet API_URL params) s
      in if status_code response \<noteq> 200 then
           (Inr (), emit (Print (FailedRetrieve (status_code response))) s1)
         else
           (case json response of
              None \<Rightarrow> (Inl JSONDecodeError, s1)
            | Some observations \<Rightarrow> process_observations env observations s1))"

section \<open>Vocabulary of the properties\<close>

text \<open>
  The calls a step completed: what it appended to the trace.  They are counted by kind:
  GET requests (inside the loops every one is the download of an image), reads of an
  image by \<open>is_static_image\<close> (one per classification), removals, printed download
  failures, files saved, and images reported as content (the ones kept).
\<close>

definition performed :: "state \<Rightarrow> 'a result \<Rightarrow> event list" where
  "performed s r = drop (length (trace s)) (trace (snd r))"

fun is_get :: "event \<Rightarrow> bool" where
  "is_get (HttpGet url ps) = True"
| "is_get e = False"

fun is_classification :: "event \<Rightarrow> bool" where
  "is_classification (ImRead p) = True"
| "is_classification e = False"


fun is_failure_report :: "event \<Rightarrow> bool" where
  "is_failure_report (Print (FailedDownload url code)) = True"
| "is_failure_report e = False"



definition downloads :: "event list \<Rightarrow> nat" where
  "downloads evs = length (filter is_get evs)"

definition classifications :: "event list \<Rightarrow> nat" where
  "classifications evs = length (filter is_classification evs)"


definition failure_reports :: "event list \<Rightarrow> nat" where
  "failure_reports evs = length (filter is_failure_report evs)"



text \<open>
  The directory can be made: it is a plain name and no regular file has it.  An image
  can be saved: the directory can be made, the last segment of the URL is a plain name,
  and no directory has that name inside.  A payload is clean when its processing cannot
  raise: the directory can be made and, if the server answers 200, the image can be
  saved and the decoder does not raise on the body.
\<close>

definition can_make_dir :: "filesystem \<Rightarrow> path \<Rightarrow> bool" where
  "can_make_dir f d = (plain_name d \<and> (f d = None \<or> f d = Some Dir))"

definition save_path_of :: "path \<Rightarrow> string \<Rightarrow> path" where
  "save_path_of save_dir image_url = os_path_join save_dir (last (str_split CHR ''/'' image_url))"

definition can_save :: "filesystem \<Rightarrow> path \<Rightarrow> string \<Rightarrow> bool" where
  "can_save f save_dir image_url =
     (can_make_dir f save_dir \<and> plain_name (last (str_split CHR ''/'' image_url))
      \<and> f (save_path_of save_dir image_url) \<noteq> Some Dir)"

definition clean :: "'img env \<Rightarrow> filesystem \<Rightarrow> string \<Rightarrow> bool" where
  "clean env f image_url =
     (can_make_dir f default_save_dir
      \<and> (status_code (requests_get env image_url []) = 200 \<longrightarrow>
           can_save f default_save_dir image_url
           \<and> decode env (content (requests_get env image_url [])) \<noteq> ImreadRaises))"

text \<open>
  The life of a downloaded image in the trace: the write that saves it, the read that
  classifies it, and the removal or the line that reports it as content.  A trace is
  curated when these events come in triples for one path: saved, classified, then
  removed or kept.
\<close>

fun is_curation_event :: "event \<Rightarrow> bool" where
  "is_curation_event (FileWrite p b) = True"
| "is_curation_event (ImRead p) = True"
| "is_curation_event (FileRemove p) = True"
| "is_curation_event (Print (ContainsContent p)) = True"
| "is_curation_event e = False"



text \<open>
  What \<open>is_static_image\<close> answers for a body at the default threshold, when the decoder
  does not raise on it.
\<close>

definition taken_for_static :: "'img env \<Rightarrow> bytes \<Rightarrow> bool" where
  "taken_for_static env b =
     (case decode env b of
        ImreadImage img \<Rightarrow> default_threshold < laplacian_var env img
      | _ \<Rightarrow> True)"

section \<open>An example run\<close>

text \<open>
  A server with one observation of three payloads and a second observation without the
  \<^verbatim>\<open>demoddata\<close> key; the second payload is gone (404).  A decoded image is represented
  by the variance of its Laplacian: 25000 for the sharp image, 300 for the flat one.
  The server also has a URL that ends in a slash and a PGM file whose header declares
  40000 by 40000 pixels, on which the decoder raises.  A second server answers every
  request with 503.
\<close>

definition ex_observations :: "observation list" where
  "ex_observations =
     [\<lparr>obs_id = Some 7, demoddata = Some
         [\<lparr>payload_demod = Some ''https://h/a/sharp.png''\<rparr>,
          \<lparr>payload_demod = Some ''https://h/b/gone.png''\<rparr>,
          \<lparr>payload_demod = Some ''https://h/c/flat.png''\<rparr>]\<rparr>,
      \<lparr>obs_id = Some 8, demoddata = None\<rparr>]"

definition ex_get :: "string \<Rightarrow> params \<Rightarrow> response" where
  "ex_get url ps =
     (if url = API_URL then \<lparr>status_code = 200, content = [], json = Some ex_observations\<rparr>
      else if url = ''https://h/a/sharp.png'' then \<lparr>status_code = 200, content = ''sharp'', json = None\<rparr>
      else if url = ''https://h/c/flat.png'' then \<lparr>status_code = 200, content = ''flat'', json = None\<rparr>
      else if url = ''https://h/d/flat.png'' then \<lparr>status_code = 200, content = ''junk'', json = None\<rparr>
      else if url = ''https://h/e/'' then \<lparr>status_code = 200, content = ''flat'', json = None\<rparr>
      else if url = ''https://h/f/huge.pgm''
        then \<lparr>status_code = 200, content = ''P5 40000 40000 255 '', json = None\<rparr>
      else \<lparr>status_code = 404, content = ''Not Found'', json = None\<rparr>)"

definition ex_decode :: "bytes \<Rightarrow> real imread" where
  "ex_decode b =
     (if b = ''sharp'' then ImreadImage 25000
      else if b = ''flat'' then ImreadImage 300
      else if b = ''P5 40000 40000 255 '' then ImreadRaises
      else ImreadNone)"

definition ex_env :: "real env" where
  "ex_env = \<lparr>requests_get = ex_get, decode = ex_decode, laplacian_var = (\<lambda>v. v)\<rparr>"

definition ex_down :: "real env" where
  "ex_down = \<lparr>requests_get = (\<lambda>url ps. \<lparr>status_code = 503, content = [], json = None\<rparr>),
              decode = ex_decode, laplacian_var = (\<lambda>v. v)\<rparr>"


definition ex_slash :: "payload list" where
  "ex_slash =
     [\<lparr>payload_demod = Some ''https://h/a/sharp.png''\<rparr>,
      \<lparr>payload_demod = Some ''https://h/b/gone.png''\<rparr>,
      \<lparr>payload_demod = Some ''https://h/e/''\<rparr>]"

definition s0 :: state where
  "s0 = \<lparr>fs = Map.empty, trace = []\<rparr>"

section \<open>Strings and paths\<close>

lemma str_split_not_Nil: "str_split c xs \<noteq> []"
  by (induction xs) (auto split: list.splits)

lemma last_str_split_free: "c \<notin> set (last (str_split c xs))"
proof (induction xs)
  case Nil
  then show ?case by simp
next
  case (Cons x xs)
  then show ?case
    using str_split_not_Nil [of c xs] by (auto split: list.splits)
qed

lemma str_split_free: "c \<notin> set xs \<Longrightarrow> str_split c xs = [xs]"
  by (induction xs) auto

lemma str_split_append: "str_split c (a @ c # b) = str_split c a @ str_split c b"
proof (induction a)
  case Nil
  then show ?case by simp
next
  case (Cons x a)
  then show ?case
    using str_split_not_Nil [of c a] by (cases "str_split c a") auto
qed

lemma last_str_split_append: "last (str_split c (a @ c # b)) = last (str_split c b)"
  by (simp add: str_split_append str_split_not_Nil)

lemma last_segment_free: "CHR ''/'' \<notin> set (last (str_split CHR ''/'' url))"
  by (rule last_str_split_free)

lemma save_path_plain:
  assumes "plain_name d"
  shows "save_path_of d url = d @ ''/'' @ last (str_split CHR ''/'' url)"
proof -
  let ?n = "last (str_split CHR ''/'' url)"
  have "\<not> (?n \<noteq> [] \<and> hd ?n = CHR ''/'')"
    using last_segment_free [of url] by (cases ?n) auto
  moreover have "d \<noteq> []"
    using assms by (simp add: plain_name_def)
  moreover have "last d \<noteq> CHR ''/''"
  proof
    assume "last d = CHR ''/''"
    moreover have "last d \<in> set d"
      using assms by (intro last_in_set) (simp add: plain_name_def)
    ultimately show False
      using assms by (simp add: plain_name_def)
  qed
  ultimately show ?thesis
    by (simp add: save_path_of_def os_path_join_def)
qed

lemma save_path_segment:
  assumes "plain_name d"
  shows "last (str_split CHR ''/'' (save_path_of d url)) = last (str_split CHR ''/'' url)"
  using last_segment_free [of url]
  by (simp add: save_path_plain [OF assms] last_str_split_append str_split_free)

lemma save_path_not_dir:
  assumes "plain_name d"
  shows "save_path_of d url \<noteq> d" and "save_path_of d url \<noteq> []"
  by (simp_all add: save_path_plain [OF assms])

lemma save_path_no_NUL:
  assumes "plain_name d" "plain_name (last (str_split CHR ''/'' url))"
  shows "NUL \<notin> set (save_path_of d url)"
proof -
  have "NUL \<noteq> CHR ''/''" by (simp add: NUL_def)
  then show ?thesis
    using assms by (auto simp: save_path_plain plain_name_def)
qed

lemma default_save_dir_plain: "plain_name default_save_dir"
  by (simp add: plain_name_def default_save_dir_def NUL_def NAME_MAX_def)

lemma save_path_default:
  "save_path_of default_save_dir url = ''satnogs_images/'' @ last (str_split CHR ''/'' url)"
  by (simp add: save_path_plain [OF default_save_dir_plain]) (simp add: default_save_dir_def)

section \<open>What the calls do\<close>

lemma os_makedirs_ok:
  assumes "can_make_dir (fs s) d"
  shows "os_makedirs d s = (Inr (), s\<lparr>fs := (fs s)(d \<mapsto> Dir), trace := trace s @ [MakeDirs d]\<rparr>)"
proof -
  have p: "NUL \<notin> set d" "d \<noteq> []" "\<not> NAME_MAX < length d"
    using assms by (auto simp: can_make_dir_def plain_name_def)
  show ?thesis
  proof (cases "fs s d")
    case None
    then show ?thesis using p by (simp add: os_makedirs_def emit_def)
  next
    case (Some n)
    then have "fs s d = Some Dir" using assms by (simp add: can_make_dir_def)
    moreover from this have "(fs s)(d \<mapsto> Dir) = fs s" by (simp add: map_upd_triv)
    ultimately show ?thesis using p by (simp add: os_makedirs_def emit_def)
  qed
qed

lemma write_file_ok:
  assumes "can_save f d url" "fs s = f(d \<mapsto> Dir)"
  shows "write_file (save_path_of d url) b s =
           (Inr (), s\<lparr>fs := (fs s)(save_path_of d url \<mapsto> File b),
                      trace := trace s @ [FileWrite (save_path_of d url) b]\<rparr>)"
proof -
  have d: "plain_name d" and n: "plain_name (last (str_split CHR ''/'' url))"
    and nd: "f (save_path_of d url) \<noteq> Some Dir"
    using assms(1) by (simp_all add: can_save_def can_make_dir_def)
  have "\<not> names_directory (fs s) (save_path_of d url)"
    using n nd save_path_not_dir(1) [OF d, of url]
    by (simp add: names_directory_def assms(2) save_path_segment [OF d] plain_name_def)
  moreover have "NUL \<notin> set (save_path_of d url)"
    by (rule save_path_no_NUL [OF d n])
  moreover have "\<not> NAME_MAX < length (last (str_split CHR ''/'' (save_path_of d url)))"
    using n by (simp add: save_path_segment [OF d] plain_name_def)
  ultimately show ?thesis
    by (simp add: write_file_def emit_def)
qed

lemma download_image_fail:
  assumes "status_code (requests_get env url []) \<noteq> 200" "can_make_dir (fs s) d"
  shows "download_image env url d s =
    (Inr None, s\<lparr>fs := (fs s)(d \<mapsto> Dir),
                  trace := trace s @ [MakeDirs d, HttpGet url [],
                    Print (FailedDownload url (status_code (requests_get env url [])))]\<rparr>)"
  using assms by (simp add: download_image_def os_makedirs_ok emit_def Let_def)

lemma download_image_ok:
  assumes "status_code (requests_get env url []) = 200" "can_save (fs s) d url"
  shows "download_image env url d s =
    (Inr (Some (save_path_of d url)),
     s\<lparr>fs := (fs s)(d \<mapsto> Dir, save_path_of d url \<mapsto> File (content (requests_get env url []))),
       trace := trace s @ [MakeDirs d, HttpGet url [],
                  FileWrite (save_path_of d url) (content (requests_get env url [])),
                  Print (Downloaded (save_path_of d url))]\<rparr>)"
proof -
  have d: "can_make_dir (fs s) d"
    using assms(2) by (simp add: can_save_def)
  let ?s2 = "s\<lparr>fs := (fs s)(d \<mapsto> Dir), trace := trace s @ [MakeDirs d, HttpGet url []]\<rparr>"
  have "fs ?s2 = (fs s)(d \<mapsto> Dir)" by simp
  from write_file_ok [OF assms(2) this, of "content (requests_get env url [])"]
  show ?thesis
    using assms(1) d
    by (simp add: download_image_def os_makedirs_ok emit_def Let_def save_path_of_def [symmetric])
qed

lemma is_static_image_raises:
  assumes "fs s p = Some (File b)" "decode env b = ImreadRaises"
  shows "is_static_image env p t s = (Inl Cv2Error, s)"
  using assms by (simp add: is_static_image_def cv2_imread_def)

lemma is_static_image_none:
  assumes "fs s p = Some (File b)" "decode env b = ImreadNone"
  shows "is_static_image env p t s =
           (Inr True, s\<lparr>trace := trace s @ [ImRead p, Print (ErrorLoading p)]\<rparr>)"
  using assms by (simp add: is_static_image_def cv2_imread_def emit_def)

lemma is_static_image_image:
  assumes "fs s p = Some (File b)" "decode env b = ImreadImage img"
  shows "is_static_image env p t s =
    (Inr (laplacian_var env img > t),
     s\<lparr>trace := trace s @ [ImRead p, Print (VarianceOf p (laplacian_var env img))]\<rparr>)"
  using assms by (simp add: is_static_image_def cv2_imread_def emit_def Let_def)

lemma classify_and_curate_raises:
  assumes "fs s p = Some (File b)" "decode env b = ImreadRaises"
  shows "classify_and_curate env p t s = (Inl Cv2Error, s)"
  using assms by (simp add: classify_and_curate_def is_static_image_raises)

lemma classify_and_curate_none:
  assumes "fs s p = Some (File b)" "decode env b = ImreadNone"
  shows "classify_and_curate env p t s =
    (Inr STATIC, s\<lparr>fs := (fs s)(p := None),
              trace := trace s @ [ImRead p, Print (ErrorLoading p),
                                  Print (AppearsStatic p), FileRemove p]\<rparr>)"
  using assms
  by (simp add: classify_and_curate_def is_static_image_none os_remove_def emit_def)

lemma classify_and_curate_image:
  assumes "fs s p = Some (File b)" "decode env b = ImreadImage img"
  shows "classify_and_curate env p t s =
    (if laplacian_var env img > t
     then (Inr STATIC, s\<lparr>fs := (fs s)(p := None),
              trace := trace s @ [ImRead p, Print (VarianceOf p (laplacian_var env img)),
                                  Print (AppearsStatic p), FileRemove p]\<rparr>)
     else (Inr CONTENT, s\<lparr>trace := trace s @ [ImRead p, Print (VarianceOf p (laplacian_var env img)),
                                  Print (ContainsContent p)]\<rparr>))"
  using assms
  by (simp add: classify_and_curate_def is_static_image_image os_remove_def emit_def)


lemma process_observation_no_payloads:
  assumes "demoddata obs = None \<or> demoddata obs = Some []"
  shows "process_observation env obs s =
           (case obs_id obs of
              None \<Rightarrow> (Inl (KeyError ''id''), s)
            | Some i \<Rightarrow> (Inr (), s\<lparr>trace := trace s @ [Print (Processing i)]\<rparr>))"
  using assms by (auto simp: process_observation_def emit_def split: option.splits)

section \<open>Classification and curation\<close>

text \<open>
  Claim C1 (what the code does): for a file that decodes, \<open>is_static_image\<close> answers
  \<^verbatim>\<open>True\<close>, and the image is classified STATIC, exactly when the variance of the
  Laplacian is strictly above the threshold; at the threshold and below it the image is
  CONTENT.  This is the reverse of the rule the claim states (STATIC if and only if the
  variance is at most the threshold) and of the comment on the \<^verbatim>\<open>return\<close> line of
  \<^verbatim>\<open>is_static_image\<close>.
\<close>

theorem static_iff_above_threshold:
  assumes "fs s image_path = Some (File b)" and "decode env b = ImreadImage img"
  shows "fst (is_static_image env image_path threshold s) = Inr (threshold < laplacian_var env img)
       \<and> fst (classify_and_curate env image_path threshold s) =
           Inr (if threshold < laplacian_var env img then STATIC else CONTENT)"
  using assms
  by (simp add: is_static_image_image classify_and_curate_image)

text \<open>
  The image of variance 300 is CONTENT at the threshold 300 and STATIC at the threshold
  299; the image of variance 25000 is STATIC at the default threshold.
\<close>

theorem static_iff_above_threshold_witness:
  "fst (classify_and_curate ex_env ''satnogs_images/flat.png'' 300
         (s0\<lparr>fs := [''satnogs_images/flat.png'' \<mapsto> File ''flat'']\<rparr>)) = Inr CONTENT
   \<and> fst (classify_and_curate ex_env ''satnogs_images/flat.png'' 299
         (s0\<lparr>fs := [''satnogs_images/flat.png'' \<mapsto> File ''flat'']\<rparr>)) = Inr STATIC
   \<and> fst (is_static_image ex_env ''satnogs_images/flat.png'' 300
         (s0\<lparr>fs := [''satnogs_images/flat.png'' \<mapsto> File ''flat'']\<rparr>)) = Inr False
   \<and> fst (classify_and_curate ex_env ''satnogs_images/sharp.png'' default_threshold
         (s0\<lparr>fs := [''satnogs_images/sharp.png'' \<mapsto> File ''sharp'']\<rparr>)) = Inr STATIC"
proof -
  let ?s = "s0\<lparr>fs := [''satnogs_images/flat.png'' \<mapsto> File ''flat'']\<rparr>"
  let ?t = "s0\<lparr>fs := [''satnogs_images/sharp.png'' \<mapsto> File ''sharp'']\<rparr>"
  have f: "fs ?s ''satnogs_images/flat.png'' = Some (File ''flat'')" by simp
  have d: "decode ex_env ''flat'' = ImreadImage 300" by (simp add: ex_env_def ex_decode_def)
  have g: "fs ?t ''satnogs_images/sharp.png'' = Some (File ''sharp'')" by simp
  have e: "decode ex_env ''sharp'' = ImreadImage 25000" by (simp add: ex_env_def ex_decode_def)
  have l: "laplacian_var ex_env v = v" for v by (simp add: ex_env_def)
  show ?thesis
    using static_iff_above_threshold [OF f d, of 300] static_iff_above_threshold [OF f d, of 299]
      static_iff_above_threshold [OF g e, of default_threshold]
    by (simp add: l default_threshold_def)
qed

text \<open>
  Claim C3 (what the code does): a file for which \<^verbatim>\<open>cv2.imread\<close> returns \<^verbatim>\<open>None\<close>
  is classified STATIC at every threshold, zero and negative ones included.  A file on
  which \<^verbatim>\<open>cv2.imread\<close> raises is not: the exception leaves \<open>is_static_image\<close> and
  the curation step, no verdict is given and the file stays where it is.
\<close>

theorem imread_none_is_static_but_error_escapes:
  assumes "fs s image_path = Some (File b)"
  shows "(decode env b = ImreadNone \<longrightarrow>
            fst (is_static_image env image_path threshold s) = Inr True
          \<and> fst (classify_and_curate env image_path threshold s) = Inr STATIC)
       \<and> (decode env b = ImreadRaises \<longrightarrow>
            is_static_image env image_path threshold s = (Inl Cv2Error, s)
          \<and> classify_and_curate env image_path threshold s = (Inl Cv2Error, s))"
  using assms
  by (simp add: is_static_image_none classify_and_curate_none is_static_image_raises
      classify_and_curate_raises)

text \<open>
  Bytes that are no image give STATIC at the thresholds -5 and 0; the PGM header that
  declares 40000 by 40000 pixels gives \<^verbatim>\<open>cv2.error\<close> and an unchanged state.
\<close>

theorem imread_none_is_static_but_error_escapes_witness:
  "fst (is_static_image ex_env ''satnogs_images/x.png'' (- 5)
         (s0\<lparr>fs := [''satnogs_images/x.png'' \<mapsto> File ''junk'']\<rparr>)) = Inr True
   \<and> fst (classify_and_curate ex_env ''satnogs_images/x.png'' 0
         (s0\<lparr>fs := [''satnogs_images/x.png'' \<mapsto> File ''junk'']\<rparr>)) = Inr STATIC
   \<and> classify_and_curate ex_env ''satnogs_images/huge.pgm'' default_threshold
         (s0\<lparr>fs := [''satnogs_images/huge.pgm'' \<mapsto> File ''P5 40000 40000 255 '']\<rparr>)
       = (Inl Cv2Error, s0\<lparr>fs := [''satnogs_images/huge.pgm'' \<mapsto> File ''P5 40000 40000 255 '']\<rparr>)"
proof -
  let ?s = "s0\<lparr>fs := [''satnogs_images/x.png'' \<mapsto> File ''junk'']\<rparr>"
  let ?h = "s0\<lparr>fs := [''satnogs_images/huge.pgm'' \<mapsto> File ''P5 40000 40000 255 '']\<rparr>"
  have f: "fs ?s ''satnogs_images/x.png'' = Some (File ''junk'')" by simp
  have d: "decode ex_env ''junk'' = ImreadNone" by (simp add: ex_env_def ex_decode_def)
  have g: "fs ?h ''satnogs_images/huge.pgm'' = Some (File ''P5 40000 40000 255 '')" by simp
  have e: "decode ex_env ''P5 40000 40000 255 '' = ImreadRaises"
    by (simp add: ex_env_def ex_decode_def)
  show ?thesis
    using imread_none_is_static_but_error_escapes [OF f, of ex_env "- 5"]
      imread_none_is_static_but_error_escapes [OF f, of ex_env 0]
      imread_none_is_static_but_error_escapes [OF g, of ex_env default_threshold]
      d e
    by blast
qed

text \<open>
  Claim C2: the curation step on a file that exists (a downloaded image), in full.  It
  gives the verdict STATIC and removes the file when the image does not load or its
  variance is above the threshold, and gives CONTENT and leaves the file system as it
  is otherwise; it gives no verdict only when \<^verbatim>\<open>cv2.imread\<close> raises, and nothing
  has changed then.  So whenever the step returns a verdict, the file exists afterwards
  if and only if the verdict is CONTENT, and no other file has changed.
\<close>

theorem curate_removes_iff_static:
  assumes "fs s image_path = Some (File b)"
  shows "classify_and_curate env image_path threshold s =
           (case decode env b of
              ImreadRaises \<Rightarrow> (Inl Cv2Error, s)
            | ImreadNone \<Rightarrow>
                (Inr STATIC,
                 s\<lparr>fs := (fs s)(image_path := None),
                   trace := trace s @ [ImRead image_path, Print (ErrorLoading image_path),
                                       Print (AppearsStatic image_path), FileRemove image_path]\<rparr>)
            | ImreadImage img \<Rightarrow>
                (if threshold < laplacian_var env img
                 then (Inr STATIC,
                       s\<lparr>fs := (fs s)(image_path := None),
                         trace := trace s @ [ImRead image_path,
                                   Print (VarianceOf image_path (laplacian_var env img)),
                                   Print (AppearsStatic image_path), FileRemove image_path]\<rparr>)
                 else (Inr CONTENT,
                       s\<lparr>trace := trace s @ [ImRead image_path,
                                   Print (VarianceOf image_path (laplacian_var env img)),
                                   Print (ContainsContent image_path)]\<rparr>)))
       \<and> (\<forall>v s'. classify_and_curate env image_path threshold s = (Inr v, s') \<longrightarrow>
             (fs s' image_path \<noteq> None) = (v = CONTENT)
           \<and> (v = STATIC \<longrightarrow> fs s' = (fs s)(image_path := None))
           \<and> (v = CONTENT \<longrightarrow> fs s' = fs s))"
proof (cases "decode env b")
  case ImreadRaises
  then show ?thesis by (simp add: classify_and_curate_raises [OF assms])
next
  case ImreadNone
  then show ?thesis by (simp add: classify_and_curate_none [OF assms])
next
  case (ImreadImage img)
  then show ?thesis using assms by (simp add: classify_and_curate_image [OF assms])
qed

text \<open>
  The sharp image is removed and the flat one kept, at the default threshold.
\<close>

theorem curate_removes_iff_static_witness:
  "classify_and_curate ex_env ''satnogs_images/sharp.png'' default_threshold
       (s0\<lparr>fs := [''satnogs_images/sharp.png'' \<mapsto> File ''sharp'']\<rparr>)
     = (Inr STATIC,
        s0\<lparr>fs := Map.empty,
           trace := [ImRead ''satnogs_images/sharp.png'',
                     Print (VarianceOf ''satnogs_images/sharp.png'' 25000),
                     Print (AppearsStatic ''satnogs_images/sharp.png''),
                     FileRemove ''satnogs_images/sharp.png'']\<rparr>)
   \<and> classify_and_curate ex_env ''satnogs_images/flat.png'' default_threshold
       (s0\<lparr>fs := [''satnogs_images/flat.png'' \<mapsto> File ''flat'']\<rparr>)
     = (Inr CONTENT,
        s0\<lparr>fs := [''satnogs_images/flat.png'' \<mapsto> File ''flat''],
           trace := [ImRead ''satnogs_images/flat.png'',
                     Print (VarianceOf ''satnogs_images/flat.png'' 300),
                     Print (ContainsContent ''satnogs_images/flat.png'')]\<rparr>)"
proof -
  let ?s = "s0\<lparr>fs := [''satnogs_images/sharp.png'' \<mapsto> File ''sharp'']\<rparr>"
  let ?t = "s0\<lparr>fs := [''satnogs_images/flat.png'' \<mapsto> File ''flat'']\<rparr>"
  have f: "fs ?s ''satnogs_images/sharp.png'' = Some (File ''sharp'')" by simp
  have g: "fs ?t ''satnogs_images/flat.png'' = Some (File ''flat'')" by simp
  have d: "decode ex_env ''sharp'' = ImreadImage 25000" "decode ex_env ''flat'' = ImreadImage 300"
    by (simp_all add: ex_env_def ex_decode_def)
  have l: "laplacian_var ex_env v = v" for v by (simp add: ex_env_def)
  have 1: "classify_and_curate ex_env ''satnogs_images/sharp.png'' default_threshold ?s
     = (Inr STATIC,
        s0\<lparr>fs := Map.empty,
           trace := [ImRead ''satnogs_images/sharp.png'',
                     Print (VarianceOf ''satnogs_images/sharp.png'' 25000),
                     Print (AppearsStatic ''satnogs_images/sharp.png''),
                     FileRemove ''satnogs_images/sharp.png'']\<rparr>)"
    using curate_removes_iff_static [OF f, of ex_env default_threshold, THEN conjunct1]
    by (simp add: d l default_threshold_def s0_def)
  have 2: "classify_and_curate ex_env ''satnogs_images/flat.png'' default_threshold ?t
     = (Inr CONTENT,
        s0\<lparr>fs := [''satnogs_images/flat.png'' \<mapsto> File ''flat''],
           trace := [ImRead ''satnogs_images/flat.png'',
                     Print (VarianceOf ''satnogs_images/flat.png'' 300),
                     Print (ContainsContent ''satnogs_images/flat.png'')]\<rparr>)"
    using curate_removes_iff_static [OF g, of ex_env default_threshold, THEN conjunct1]
    by (simp add: d l default_threshold_def s0_def)
  show ?thesis using 1 2 by (rule conjI)
qed

section \<open>The observation list\<close>

text \<open>
  Claim C6: when the GET for the observation list answers with a status other than 200,
  the run ends there without an exception: that one request was sent (no retry), the
  failure was printed, and nothing else happened, so no image was downloaded or
  classified and the file system is as it was.
\<close>

theorem fetch_failure_is_fatal:
  assumes "status_code (requests_get env API_URL (query_params station_id satellite_id start_date end_date limit)) \<noteq> 200"
  shows "get_sstv_images env station_id satellite_id start_date end_date limit s =
           (Inr (), s\<lparr>trace := trace s @
              [HttpGet API_URL (query_params station_id satellite_id start_date end_date limit),
               Print (FailedRetrieve
                 (status_code (requests_get env API_URL (query_params station_id satellite_id start_date end_date limit))))]\<rparr>)"
  using assms by (simp add: get_sstv_images_def emit_def Let_def)

theorem fetch_failure_is_fatal_witness:
  "get_sstv_images ex_down 2433 25544 None None 10 s0 =
     (Inr (), s0\<lparr>trace :=
        [HttpGet API_URL (query_params 2433 25544 None None 10), Print (FailedRetrieve 503)]\<rparr>)"
proof -
  have "status_code (requests_get ex_down API_URL (query_params 2433 25544 None None 10)) \<noteq> 200"
    by (simp add: ex_down_def)
  from fetch_failure_is_fatal [OF this, of s0] show ?thesis
    by (simp add: ex_down_def s0_def)
qed

text \<open>
  Claim C7: an observation whose \<^verbatim>\<open>demoddata\<close> is the empty list costs no download and
  no classification, and leaves the file system alone.
\<close>

theorem empty_demoddata_no_work:
  assumes "demoddata obs = Some []"
  shows "downloads (performed s (process_observation env obs s)) = 0
       \<and> classifications (performed s (process_observation env obs s)) = 0
       \<and> fs (snd (process_observation env obs s)) = fs s"
proof (cases "obs_id obs")
  case None
  then have "process_observation env obs s = (Inl (KeyError ''id''), s)"
    using assms by (simp add: process_observation_no_payloads)
  then show ?thesis
    by (simp add: performed_def downloads_def classifications_def)
next
  case (Some i)
  then have "process_observation env obs s =
      (Inr (), s\<lparr>trace := trace s @ [Print (Processing i)]\<rparr>)"
    using assms by (simp add: process_observation_no_payloads)
  then show ?thesis
    by (simp add: performed_def downloads_def classifications_def)
qed

theorem empty_demoddata_no_work_witness:
  "downloads (performed s0 (process_observation ex_env \<lparr>obs_id = Some 9, demoddata = Some []\<rparr> s0)) = 0
   \<and> classifications (performed s0 (process_observation ex_env \<lparr>obs_id = Some 9, demoddata = Some []\<rparr> s0)) = 0
   \<and> fs (snd (process_observation ex_env \<lparr>obs_id = Some 9, demoddata = Some []\<rparr> s0)) = fs s0"
  using empty_demoddata_no_work [of "\<lparr>obs_id = Some 9, demoddata = Some []\<rparr>" s0 ex_env]
  by simp

text \<open>
  Claim C9: an observation record without the \<^verbatim>\<open>demoddata\<close> key is processed exactly
  like the same record with an empty \<^verbatim>\<open>demoddata\<close> list: nothing is downloaded or
  classified and the file system is left alone.  Reading the absent key raises nothing:
  for a record that has its \<^verbatim>\<open>id\<close> the step prints the progress line and returns
  normally.
\<close>

theorem missing_demoddata_is_empty:
  assumes "demoddata obs = None"
  shows "process_observation env obs s = process_observation env (obs\<lparr>demoddata := Some []\<rparr>) s
       \<and> downloads (performed s (process_observation env obs s)) = 0
       \<and> classifications (performed s (process_observation env obs s)) = 0
       \<and> fs (snd (process_observation env obs s)) = fs s
       \<and> (\<forall>i. obs_id obs = Some i \<longrightarrow>
             process_observation env obs s = (Inr (), emit (Print (Processing i)) s))"
  using assms
  by (cases "obs_id obs")
     (simp_all add: process_observation_def emit_def performed_def downloads_def
        classifications_def)

theorem missing_demoddata_is_empty_witness:
  "process_observation ex_env \<lparr>obs_id = Some 8, demoddata = None\<rparr> s0
      = process_observation ex_env \<lparr>obs_id = Some 8, demoddata = Some []\<rparr> s0
   \<and> downloads (performed s0 (process_observation ex_env \<lparr>obs_id = Some 8, demoddata = None\<rparr> s0)) = 0
   \<and> classifications (performed s0 (process_observation ex_env \<lparr>obs_id = Some 8, demoddata = None\<rparr> s0)) = 0
   \<and> fs (snd (process_observation ex_env \<lparr>obs_id = Some 8, demoddata = None\<rparr> s0)) = fs s0
   \<and> process_observation ex_env \<lparr>obs_id = Some 8, demoddata = None\<rparr> s0
      = (Inr (), emit (Print (Processing 8)) s0)"
proof -
  have a: "demoddata \<lparr>obs_id = Some 8, demoddata = None\<rparr> = None"
    and b: "obs_id \<lparr>obs_id = Some 8, demoddata = None\<rparr> = Some 8"
    and c: "\<lparr>obs_id = Some 8, demoddata = None\<rparr>\<lparr>demoddata := Some []\<rparr>
              = \<lparr>obs_id = Some 8, demoddata = Some []\<rparr>"
    by simp_all
  show ?thesis
    using missing_demoddata_is_empty [OF a, of ex_env s0] b unfolding c by blast
qed

section \<open>Downloads\<close>


lemma ex_status:
  "status_code (requests_get ex_env ''https://h/a/sharp.png'' []) = 200"
  "status_code (requests_get ex_env ''https://h/b/gone.png'' []) = 404"
  "status_code (requests_get ex_env ''https://h/c/flat.png'' []) = 200"
  "status_code (requests_get ex_env ''https://h/d/flat.png'' []) = 200"
  "status_code (requests_get ex_env ''https://h/e/'' []) = 200"
  "status_code (requests_get ex_env ''https://h/f/huge.pgm'' []) = 200"
  by (simp_all add: ex_env_def ex_get_def API_URL_def)

lemma ex_content:
  "content (requests_get ex_env ''https://h/a/sharp.png'' []) = ''sharp''"
  "content (requests_get ex_env ''https://h/c/flat.png'' []) = ''flat''"
  "content (requests_get ex_env ''https://h/d/flat.png'' []) = ''junk''"
  by (simp_all add: ex_env_def ex_get_def API_URL_def)

lemma ex_decoded:
  "decode ex_env ''sharp'' = ImreadImage 25000"
  "decode ex_env ''flat'' = ImreadImage 300"
  "decode ex_env ''junk'' = ImreadNone"
  "decode ex_env ''P5 40000 40000 255 '' = ImreadRaises"
  by (simp_all add: ex_env_def ex_decode_def)

lemma ex_save_paths:
  "save_path_of default_save_dir ''https://h/a/sharp.png'' = ''satnogs_images/sharp.png''"
  "save_path_of default_save_dir ''https://h/b/gone.png'' = ''satnogs_images/gone.png''"
  "save_path_of default_save_dir ''https://h/c/flat.png'' = ''satnogs_images/flat.png''"
  "save_path_of default_save_dir ''https://h/d/flat.png'' = ''satnogs_images/flat.png''"
  by (simp_all add: save_path_default)

lemma ex_can_make_dir: "can_make_dir (fs s0) default_save_dir"
  by (simp add: can_make_dir_def default_save_dir_plain s0_def)

lemma ex_can_save:
  "can_save (fs s0) default_save_dir ''https://h/a/sharp.png''"
  "can_save (fs s0) default_save_dir ''https://h/b/gone.png''"
  "can_save (fs s0) default_save_dir ''https://h/c/flat.png''"
  by (simp_all add: can_save_def ex_can_make_dir plain_name_def NUL_def NAME_MAX_def)
     (simp_all add: s0_def)

lemma can_save_again:
  assumes "can_save f d url" "last (str_split CHR ''/'' url2) = last (str_split CHR ''/'' url)"
  shows "can_save (f(d \<mapsto> Dir, save_path_of d url \<mapsto> File c)) d url2"
proof -
  have d: "plain_name d"
    using assms(1) by (simp add: can_save_def can_make_dir_def)
  have same: "save_path_of d url2 = save_path_of d url"
    using assms(2) by (simp add: save_path_of_def)
  show ?thesis
    using assms save_path_not_dir(1) [OF d, of url]
    by (auto simp: can_save_def same can_make_dir_def)
qed

text \<open>
  Claim C8, amended: a download answered with 200 whose image can be saved (the last
  segment of the URL is a plain file name, no directory has that name inside
  \<^verbatim>\<open>satnogs_images\<close>, and no regular file is called \<^verbatim>\<open>satnogs_images\<close>) writes the
  body to \<^verbatim>\<open>satnogs_images/<last segment of the URL>\<close> and returns that path.  A later
  download answered with 200 of a URL with the same last segment returns the same path
  and replaces the file's bytes, with nothing raised and nothing printed but the usual
  line.
\<close>

theorem download_saves_under_last_segment:
  assumes "status_code (requests_get env image_url []) = 200"
      and "can_save (fs s) default_save_dir image_url"
  shows "\<exists>s1. download_image env image_url default_save_dir s
                = (Inr (Some (save_path_of default_save_dir image_url)), s1)
           \<and> fs s1 = (fs s)(default_save_dir \<mapsto> Dir,
                           save_path_of default_save_dir image_url \<mapsto>
                             File (content (requests_get env image_url [])))
           \<and> save_path_of default_save_dir image_url
                = ''satnogs_images/'' @ last (str_split CHR ''/'' image_url)
           \<and> (\<forall>url2. status_code (requests_get env url2 []) = 200
                  \<and> last (str_split CHR ''/'' url2) = last (str_split CHR ''/'' image_url) \<longrightarrow>
                (\<exists>s2. download_image env url2 default_save_dir s1
                         = (Inr (Some (save_path_of default_save_dir image_url)), s2)
                    \<and> fs s2 = (fs s1)(save_path_of default_save_dir image_url \<mapsto>
                                      File (content (requests_get env url2 [])))
                    \<and> performed s1 (download_image env url2 default_save_dir s1)
                         = [MakeDirs default_save_dir, HttpGet url2 [],
                            FileWrite (save_path_of default_save_dir image_url)
                              (content (requests_get env url2 [])),
                            Print (Downloaded (save_path_of default_save_dir image_url))]))"
proof -
  let ?d = default_save_dir
  let ?p = "save_path_of ?d image_url"
  let ?s1 = "s\<lparr>fs := (fs s)(?d \<mapsto> Dir, ?p \<mapsto> File (content (requests_get env image_url []))),
       trace := trace s @ [MakeDirs ?d, HttpGet image_url [],
                  FileWrite ?p (content (requests_get env image_url [])),
                  Print (Downloaded ?p)]\<rparr>"
  have first: "download_image env image_url ?d s = (Inr (Some ?p), ?s1)"
    by (rule download_image_ok [OF assms])
  have ne: "?p \<noteq> ?d"
    by (rule save_path_not_dir(1) [OF default_save_dir_plain])
  have second: "\<exists>s2. download_image env url2 ?d ?s1 = (Inr (Some ?p), s2)
                    \<and> fs s2 = (fs ?s1)(?p \<mapsto> File (content (requests_get env url2 [])))
                    \<and> performed ?s1 (download_image env url2 ?d ?s1)
                         = [MakeDirs ?d, HttpGet url2 [],
                            FileWrite ?p (content (requests_get env url2 [])),
                            Print (Downloaded ?p)]"
    if ok: "status_code (requests_get env url2 []) = 200"
      and seg: "last (str_split CHR ''/'' url2) = last (str_split CHR ''/'' image_url)" for url2
  proof -
    have same: "save_path_of ?d url2 = ?p"
      using seg by (simp add: save_path_of_def)
    have "can_save (fs ?s1) ?d url2"
      using can_save_again [OF assms(2) seg] by simp
    from download_image_ok [OF ok this] show ?thesis
      using ne by (simp add: same performed_def fun_upd_twist)
  qed
  show ?thesis
    using first second by (simp add: save_path_default)
qed

text \<open>
  Two URLs that end in \<^verbatim>\<open>flat.png\<close>: after both downloads the file holds the second
  body.
\<close>

theorem download_saves_under_last_segment_witness:
  "\<exists>s1. download_image ex_env ''https://h/c/flat.png'' default_save_dir s0
            = (Inr (Some ''satnogs_images/flat.png''), s1)
       \<and> fs s1 ''satnogs_images/flat.png'' = Some (File ''flat'')
       \<and> (\<exists>s2. download_image ex_env ''https://h/d/flat.png'' default_save_dir s1
                   = (Inr (Some ''satnogs_images/flat.png''), s2)
              \<and> fs s2 ''satnogs_images/flat.png'' = Some (File ''junk''))"
proof -
  have seg: "last (str_split CHR ''/'' ''https://h/d/flat.png'')
           = last (str_split CHR ''/'' ''https://h/c/flat.png'')"
    by simp
  from download_saves_under_last_segment [OF ex_status(3) ex_can_save(3)]
  obtain s1 where
    1: "download_image ex_env ''https://h/c/flat.png'' default_save_dir s0
          = (Inr (Some ''satnogs_images/flat.png''), s1)"
    and 2: "fs s1 = (fs s0)(default_save_dir \<mapsto> Dir, ''satnogs_images/flat.png'' \<mapsto> File ''flat'')"
    and 3: "\<And>url2. status_code (requests_get ex_env url2 []) = 200 \<Longrightarrow>
              last (str_split CHR ''/'' url2) = last (str_split CHR ''/'' ''https://h/c/flat.png'') \<Longrightarrow>
              \<exists>s2. download_image ex_env url2 default_save_dir s1
                      = (Inr (Some ''satnogs_images/flat.png''), s2)
                 \<and> fs s2 = (fs s1)(''satnogs_images/flat.png'' \<mapsto> File (content (requests_get ex_env url2 [])))"
    unfolding ex_save_paths ex_content by blast
  from 3 [OF ex_status(4) seg] obtain s2 where
    4: "download_image ex_env ''https://h/d/flat.png'' default_save_dir s1
          = (Inr (Some ''satnogs_images/flat.png''), s2)"
    and 5: "fs s2 = (fs s1)(''satnogs_images/flat.png'' \<mapsto> File ''junk'')"
    unfolding ex_content by blast
  show ?thesis using 1 2 4 5 by simp
qed

text \<open>
  Claim C8 as stated fails for a URL that ends in a slash: the server answers 200, the
  last segment is empty, \<^verbatim>\<open>open("satnogs_images/", "wb")\<close> raises
  \<^verbatim>\<open>IsADirectoryError\<close>, no file is written and no path is returned.
\<close>

theorem download_saves_under_last_segment_counterexample:
  "status_code (requests_get ex_env ''https://h/e/'' []) = 200
   \<and> fst (download_image ex_env ''https://h/e/'' default_save_dir s0)
       = Inl (IsADirectoryError ''satnogs_images/'')
   \<and> trace (snd (download_image ex_env ''https://h/e/'' default_save_dir s0))
       = [MakeDirs ''satnogs_images'', HttpGet ''https://h/e/'' []]
   \<and> fs (snd (download_image ex_env ''https://h/e/'' default_save_dir s0)) ''satnogs_images/''
       = None"
  by code_simp



section \<open>The loop over the payloads\<close>

lemma can_save_preserved:
  assumes u: "can_save f d u" and d: "plain_name d"
  shows "can_save (f(d \<mapsto> Dir)) d u"
    and "can_save (f(d \<mapsto> Dir, save_path_of d url \<mapsto> File c)) d u"
    and "can_save (f(d \<mapsto> Dir, save_path_of d url := None)) d u"
  using u save_path_not_dir(1) [OF d, of u] save_path_not_dir(1) [OF d, of url]
  by (auto simp: can_save_def can_make_dir_def)

lemma can_make_dir_preserved:
  assumes "plain_name d"
  shows "can_make_dir (f(d \<mapsto> Dir)) d"
    and "can_make_dir (f(d \<mapsto> Dir, save_path_of d url \<mapsto> File c)) d"
    and "can_make_dir (f(d \<mapsto> Dir, save_path_of d url := None)) d"
  using assms save_path_not_dir(1) [OF assms, of url]
  by (auto simp: can_make_dir_def)

lemma clean_preserved:
  assumes "clean env f u"
  shows "clean env (f(default_save_dir \<mapsto> Dir)) u"
    and "clean env (f(default_save_dir \<mapsto> Dir, save_path_of default_save_dir url \<mapsto> File c)) u"
    and "clean env (f(default_save_dir \<mapsto> Dir, save_path_of default_save_dir url := None)) u"
  using assms can_save_preserved [OF _ default_save_dir_plain]
    can_make_dir_preserved [OF default_save_dir_plain]
  by (auto simp: clean_def)

lemma process_payload_failed:
  assumes "payload_demod data = Some url"
      and "status_code (requests_get env url []) \<noteq> 200"
      and "can_make_dir (fs s) default_save_dir"
  shows "process_payload env data s =
    (Inr (), s\<lparr>fs := (fs s)(default_save_dir \<mapsto> Dir),
                trace := trace s @ [MakeDirs default_save_dir, HttpGet url [],
                  Print (FailedDownload url (status_code (requests_get env url [])))]\<rparr>)"
  using assms by (simp add: process_payload_def download_image_fail)

lemma process_payload_saved:
  assumes "payload_demod data = Some url"
      and "status_code (requests_get env url []) = 200"
      and "can_save (fs s) default_save_dir url"
      and "decode env (content (requests_get env url [])) \<noteq> ImreadRaises"
  shows "\<exists>evs. process_payload env data s =
             (Inr (),
              s\<lparr>fs := (if taken_for_static env (content (requests_get env url []))
                        then (fs s)(default_save_dir \<mapsto> Dir, save_path_of default_save_dir url := None)
                        else (fs s)(default_save_dir \<mapsto> Dir,
                               save_path_of default_save_dir url \<mapsto> File (content (requests_get env url [])))),
                trace := trace s @ evs\<rparr>)
           \<and> downloads evs = 1 \<and> classifications evs = 1 \<and> failure_reports evs = 0
           \<and> filter is_curation_event evs =
               [FileWrite (save_path_of default_save_dir url) (content (requests_get env url [])),
                ImRead (save_path_of default_save_dir url),
                if taken_for_static env (content (requests_get env url []))
                then FileRemove (save_path_of default_save_dir url)
                else Print (ContainsContent (save_path_of default_save_dir url))]"
proof -
  let ?d = default_save_dir
  let ?p = "save_path_of ?d url"
  let ?c = "content (requests_get env url [])"
  let ?s1 = "s\<lparr>fs := (fs s)(?d \<mapsto> Dir, ?p \<mapsto> File ?c),
       trace := trace s @ [MakeDirs ?d, HttpGet url [], FileWrite ?p ?c, Print (Downloaded ?p)]\<rparr>"
  have dl: "download_image env url ?d s = (Inr (Some ?p), ?s1)"
    by (rule download_image_ok [OF assms(2,3)])
  have ne: "?p \<noteq> []"
    by (rule save_path_not_dir(2) [OF default_save_dir_plain])
  have saved: "fs ?s1 ?p = Some (File ?c)" by simp
  show ?thesis
  proof (cases "decode env ?c")
    case ImreadRaises
    then show ?thesis using assms(4) by simp
  next
    case ImreadNone
    let ?e = "[MakeDirs ?d, HttpGet url [], FileWrite ?p ?c, Print (Downloaded ?p),
               ImRead ?p, Print (ErrorLoading ?p), Print (AppearsStatic ?p), FileRemove ?p]"
    have st: "taken_for_static env ?c"
      using ImreadNone by (simp add: taken_for_static_def)
    have pp: "process_payload env data s =
        (Inr (), s\<lparr>fs := (fs s)(?d \<mapsto> Dir, ?p := None), trace := trace s @ ?e\<rparr>)"
      using assms(1) ne
      by (simp add: process_payload_def dl classify_and_curate_none [OF saved ImreadNone])
    show ?thesis
      by (rule exI [of _ "?e"])
         (simp add: pp st downloads_def classifications_def failure_reports_def)
  next
    case (ImreadImage img)
    show ?thesis
    proof (cases "default_threshold < laplacian_var env img")
      case True
      let ?e = "[MakeDirs ?d, HttpGet url [], FileWrite ?p ?c, Print (Downloaded ?p),
                 ImRead ?p, Print (VarianceOf ?p (laplacian_var env img)),
                 Print (AppearsStatic ?p), FileRemove ?p]"
      have st: "taken_for_static env ?c"
        using ImreadImage True by (simp add: taken_for_static_def)
      have pp: "process_payload env data s =
          (Inr (), s\<lparr>fs := (fs s)(?d \<mapsto> Dir, ?p := None), trace := trace s @ ?e\<rparr>)"
        using assms(1) ne True
        by (simp add: process_payload_def dl classify_and_curate_image [OF saved ImreadImage])
      show ?thesis
        by (rule exI [of _ "?e"])
           (simp add: pp st downloads_def classifications_def failure_reports_def)
    next
      case False
      let ?e = "[MakeDirs ?d, HttpGet url [], FileWrite ?p ?c, Print (Downloaded ?p),
                 ImRead ?p, Print (VarianceOf ?p (laplacian_var env img)),
                 Print (ContainsContent ?p)]"
      have st: "\<not> taken_for_static env ?c"
        using ImreadImage False by (simp add: taken_for_static_def)
      have pp: "process_payload env data s =
          (Inr (), s\<lparr>fs := (fs s)(?d \<mapsto> Dir, ?p \<mapsto> File ?c), trace := trace s @ ?e\<rparr>)"
        using assms(1) ne False
        by (simp add: process_payload_def dl classify_and_curate_image [OF saved ImreadImage])
      show ?thesis
        by (rule exI [of _ "?e"])
           (simp add: pp st downloads_def classifications_def failure_reports_def)
    qed
  qed
qed

lemma process_payload_clean:
  assumes data: "payload_demod data = Some url" and cl: "clean env (fs s) url"
  shows "\<exists>evs f'. process_payload env data s = (Inr (), s\<lparr>fs := f', trace := trace s @ evs\<rparr>)
      \<and> downloads evs = 1
      \<and> classifications evs = (if status_code (requests_get env url []) = 200 then 1 else 0)
      \<and> failure_reports evs = (if status_code (requests_get env url []) = 200 then 0 else 1)
      \<and> (\<forall>u. clean env (fs s) u \<longrightarrow> clean env f' u)"
proof (cases "status_code (requests_get env url []) = 200")
  case True
  then have cs: "can_save (fs s) default_save_dir url"
    and ld: "decode env (content (requests_get env url [])) \<noteq> ImreadRaises"
    using cl by (simp_all add: clean_def)
  from process_payload_saved [OF data True cs ld] obtain evs where
    pp: "process_payload env data s =
             (Inr (),
              s\<lparr>fs := (if taken_for_static env (content (requests_get env url []))
                        then (fs s)(default_save_dir \<mapsto> Dir, save_path_of default_save_dir url := None)
                        else (fs s)(default_save_dir \<mapsto> Dir,
                               save_path_of default_save_dir url \<mapsto> File (content (requests_get env url [])))),
                trace := trace s @ evs\<rparr>)"
    and n: "downloads evs = 1" "classifications evs = 1" "failure_reports evs = 0"
    by blast
  let ?f = "if taken_for_static env (content (requests_get env url []))
            then (fs s)(default_save_dir \<mapsto> Dir, save_path_of default_save_dir url := None)
            else (fs s)(default_save_dir \<mapsto> Dir,
                   save_path_of default_save_dir url \<mapsto> File (content (requests_get env url [])))"
  have "\<forall>u. clean env (fs s) u \<longrightarrow> clean env ?f u"
    using clean_preserved(2,3) by auto
  then show ?thesis
    using pp n True by (intro exI [of _ evs] exI [of _ ?f]) simp
next
  case False
  have d: "can_make_dir (fs s) default_save_dir"
    using cl by (simp add: clean_def)
  have "\<forall>u. clean env (fs s) u \<longrightarrow> clean env ((fs s)(default_save_dir \<mapsto> Dir)) u"
    using clean_preserved(1) by blast
  then show ?thesis
    using False
    by (intro exI [of _ "[MakeDirs default_save_dir, HttpGet url [],
             Print (FailedDownload url (status_code (requests_get env url [])))]"]
          exI [of _ "(fs s)(default_save_dir \<mapsto> Dir)"])
       (simp add: process_payload_failed [OF data False d] downloads_def classifications_def
        failure_reports_def)
qed

lemma process_payloads_counts:
  assumes "map payload_demod ds = map Some urls"
      and "\<forall>u\<in>set urls. clean env (fs s) u"
  shows "\<exists>evs f'. process_payloads env ds s = (Inr (), s\<lparr>fs := f', trace := trace s @ evs\<rparr>)
           \<and> downloads evs = length urls
           \<and> classifications evs
                = length (filter (\<lambda>u. status_code (requests_get env u []) = 200) urls)
           \<and> failure_reports evs
                = length (filter (\<lambda>u. status_code (requests_get env u []) \<noteq> 200) urls)"
  using assms
proof (induction ds arbitrary: urls s)
  case Nil
  then show ?case
    by (intro exI [of _ "[]"] exI [of _ "fs s"])
       (simp add: downloads_def classifications_def failure_reports_def)
next
  case (Cons data rest)
  from Cons.prems(1) obtain url urls' where urls: "urls = url # urls'"
    and data: "payload_demod data = Some url"
    and rest: "map payload_demod rest = map Some urls'"
    by (cases urls) auto
  have cs: "clean env (fs s) url"
    and cs': "\<forall>u\<in>set urls'. clean env (fs s) u"
    using Cons.prems(2) urls by simp_all
  from process_payload_clean [OF data cs] obtain evs f' where
    pp: "process_payload env data s = (Inr (), s\<lparr>fs := f', trace := trace s @ evs\<rparr>)"
    and n1: "downloads evs = 1"
    and n2: "classifications evs = (if status_code (requests_get env url []) = 200 then 1 else 0)"
    and n3: "failure_reports evs = (if status_code (requests_get env url []) = 200 then 0 else 1)"
    and inv: "\<forall>u. clean env (fs s) u \<longrightarrow> clean env f' u"
    by blast
  let ?s1 = "s\<lparr>fs := f', trace := trace s @ evs\<rparr>"
  have "\<forall>u\<in>set urls'. clean env (fs ?s1) u"
    using inv cs' by simp
  from Cons.IH [OF rest this] obtain evs2 f2 where
    ih: "process_payloads env rest ?s1 = (Inr (), ?s1\<lparr>fs := f2, trace := trace ?s1 @ evs2\<rparr>)"
    and m1: "downloads evs2 = length urls'"
    and m2: "classifications evs2
               = length (filter (\<lambda>u. status_code (requests_get env u []) = 200) urls')"
    and m3: "failure_reports evs2
               = length (filter (\<lambda>u. status_code (requests_get env u []) \<noteq> 200) urls')"
    by blast
  have "process_payloads env (data # rest) s
          = (Inr (), s\<lparr>fs := f2, trace := trace s @ (evs @ evs2)\<rparr>)"
    by (simp add: pp ih)
  moreover have "downloads (evs @ evs2) = length urls"
    using n1 m1 urls by (simp add: downloads_def)
  moreover have "classifications (evs @ evs2)
      = length (filter (\<lambda>u. status_code (requests_get env u []) = 200) urls)"
    using n2 m2 urls by (simp add: classifications_def)
  moreover have "failure_reports (evs @ evs2)
      = length (filter (\<lambda>u. status_code (requests_get env u []) \<noteq> 200) urls)"
    using n3 m3 urls by (simp add: failure_reports_def)
  ultimately show ?case by blast
qed

lemma ex_clean:
  "clean ex_env (fs s0) ''https://h/a/sharp.png''"
  "clean ex_env (fs s0) ''https://h/b/gone.png''"
  "clean ex_env (fs s0) ''https://h/c/flat.png''"
  by (simp_all add: clean_def ex_can_make_dir ex_can_save ex_status ex_content ex_decoded)

text \<open>
  Claim C5, amended: over a list of clean payloads (the directory can be made and, where
  the server answers 200, the image can be saved and read without an exception) the loop
  runs to its end; it sends one GET per payload, classifies exactly the images whose
  download answered 200 and prints one failure line for each other status.  So three
  such payloads of which one answers 404 and two answer 200 give two classifications
  and one reported failure.  For a payload that fails nothing happens but making the
  directory, the GET and the printed failure (no read of an image, no removal), and the
  loop goes on with the remaining payloads.
\<close>

theorem failed_download_is_skipped:
  assumes "map payload_demod ds = map Some urls"
      and "\<forall>u\<in>set urls. clean env (fs s) u"
  shows "fst (process_payloads env ds s) = Inr ()
       \<and> downloads (performed s (process_payloads env ds s)) = length urls
       \<and> classifications (performed s (process_payloads env ds s))
            = length (filter (\<lambda>u. status_code (requests_get env u []) = 200) urls)
       \<and> failure_reports (performed s (process_payloads env ds s))
            = length (filter (\<lambda>u. status_code (requests_get env u []) \<noteq> 200) urls)
       \<and> (length urls = 3
            \<and> length (filter (\<lambda>u. status_code (requests_get env u []) = 404) urls) = 1
            \<and> length (filter (\<lambda>u. status_code (requests_get env u []) = 200) urls) = 2 \<longrightarrow>
              classifications (performed s (process_payloads env ds s)) = 2
            \<and> failure_reports (performed s (process_payloads env ds s)) = 1)
       \<and> (payload_demod data = Some url
            \<and> status_code (requests_get env url []) \<noteq> 200
            \<and> can_make_dir (fs t) default_save_dir \<longrightarrow>
              process_payloads env (data # rest) t =
              process_payloads env rest
                (t\<lparr>fs := (fs t)(default_save_dir \<mapsto> Dir),
                   trace := trace t @ [MakeDirs default_save_dir, HttpGet url [],
                     Print (FailedDownload url (status_code (requests_get env url [])))]\<rparr>))"
proof -
  let ?ok = "\<lambda>u. status_code (requests_get env u []) = 200"
  from process_payloads_counts [OF assms] obtain evs f' where
    run: "process_payloads env ds s = (Inr (), s\<lparr>fs := f', trace := trace s @ evs\<rparr>)"
    and n1: "downloads evs = length urls"
    and n2: "classifications evs = length (filter ?ok urls)"
    and n3: "failure_reports evs = length (filter (\<lambda>u. \<not> ?ok u) urls)"
    by blast
  have p: "performed s (process_payloads env ds s) = evs"
    by (simp add: run performed_def)
  have "length (filter ?ok urls) + length (filter (\<lambda>u. \<not> ?ok u) urls) = length urls"
    by (rule sum_length_filter_compl)
  then have scenario: "failure_reports evs = 1"
    if "length urls = 3" "length (filter ?ok urls) = 2"
    using that n3 by simp
  have skip: "process_payloads env (data # rest) t =
              process_payloads env rest
                (t\<lparr>fs := (fs t)(default_save_dir \<mapsto> Dir),
                   trace := trace t @ [MakeDirs default_save_dir, HttpGet url [],
                     Print (FailedDownload url (status_code (requests_get env url [])))]\<rparr>)"
    if "payload_demod data = Some url" "status_code (requests_get env url []) \<noteq> 200"
       "can_make_dir (fs t) default_save_dir"
    by (simp add: process_payload_failed [OF that])
  show ?thesis
    unfolding p using run n1 n2 n3 scenario skip by simp
qed

theorem failed_download_is_skipped_witness:
  "fst (process_payloads ex_env
          [\<lparr>payload_demod = Some ''https://h/a/sharp.png''\<rparr>,
           \<lparr>payload_demod = Some ''https://h/b/gone.png''\<rparr>,
           \<lparr>payload_demod = Some ''https://h/c/flat.png''\<rparr>] s0) = Inr ()
   \<and> downloads (performed s0 (process_payloads ex_env
          [\<lparr>payload_demod = Some ''https://h/a/sharp.png''\<rparr>,
           \<lparr>payload_demod = Some ''https://h/b/gone.png''\<rparr>,
           \<lparr>payload_demod = Some ''https://h/c/flat.png''\<rparr>] s0)) = 3
   \<and> classifications (performed s0 (process_payloads ex_env
          [\<lparr>payload_demod = Some ''https://h/a/sharp.png''\<rparr>,
           \<lparr>payload_demod = Some ''https://h/b/gone.png''\<rparr>,
           \<lparr>payload_demod = Some ''https://h/c/flat.png''\<rparr>] s0)) = 2
   \<and> failure_reports (performed s0 (process_payloads ex_env
          [\<lparr>payload_demod = Some ''https://h/a/sharp.png''\<rparr>,
           \<lparr>payload_demod = Some ''https://h/b/gone.png''\<rparr>,
           \<lparr>payload_demod = Some ''https://h/c/flat.png''\<rparr>] s0)) = 1
   \<and> process_payloads ex_env [\<lparr>payload_demod = Some ''https://h/b/gone.png''\<rparr>] s0 =
        (Inr (), s0\<lparr>fs := (fs s0)(default_save_dir \<mapsto> Dir),
                    trace := trace s0 @ [MakeDirs default_save_dir, HttpGet ''https://h/b/gone.png'' [],
                                         Print (FailedDownload ''https://h/b/gone.png'' 404)]\<rparr>)"
proof -
  let ?ds = "[\<lparr>payload_demod = Some ''https://h/a/sharp.png''\<rparr>,
              \<lparr>payload_demod = Some ''https://h/b/gone.png''\<rparr>,
              \<lparr>payload_demod = Some ''https://h/c/flat.png''\<rparr>]"
  let ?urls = "[''https://h/a/sharp.png'', ''https://h/b/gone.png'', ''https://h/c/flat.png'']"
  have a: "map payload_demod ?ds = map Some ?urls" by simp
  have b: "\<forall>u\<in>set ?urls. clean ex_env (fs s0) u"
    using ex_clean by simp
  have c: "length ?urls = 3
      \<and> length (filter (\<lambda>u. status_code (requests_get ex_env u []) = 404) ?urls) = 1
      \<and> length (filter (\<lambda>u. status_code (requests_get ex_env u []) = 200) ?urls) = 2"
    by (simp add: ex_status)
  have d: "payload_demod \<lparr>payload_demod = Some ''https://h/b/gone.png''\<rparr> = Some ''https://h/b/gone.png''
      \<and> status_code (requests_get ex_env ''https://h/b/gone.png'' []) \<noteq> 200
      \<and> can_make_dir (fs s0) default_save_dir"
    by (simp add: ex_status ex_can_make_dir)
  note th = failed_download_is_skipped [OF a b, of
        "\<lparr>payload_demod = Some ''https://h/b/gone.png''\<rparr>" "''https://h/b/gone.png''" s0 "[]"]
  have 1: "fst (process_payloads ex_env ?ds s0) = Inr ()"
    using th by blast
  have 2: "downloads (performed s0 (process_payloads ex_env ?ds s0)) = 3"
    using th [THEN conjunct2, THEN conjunct1] by simp
  have 3: "classifications (performed s0 (process_payloads ex_env ?ds s0)) = 2
         \<and> failure_reports (performed s0 (process_payloads ex_env ?ds s0)) = 1"
    using th c by blast
  have 4: "process_payloads ex_env [\<lparr>payload_demod = Some ''https://h/b/gone.png''\<rparr>] s0 =
        (Inr (), s0\<lparr>fs := (fs s0)(default_save_dir \<mapsto> Dir),
                    trace := trace s0 @ [MakeDirs default_save_dir, HttpGet ''https://h/b/gone.png'' [],
                                         Print (FailedDownload ''https://h/b/gone.png'' 404)]\<rparr>)"
    using th [THEN conjunct2, THEN conjunct2, THEN conjunct2, THEN conjunct2, THEN conjunct2,
              THEN mp, OF d]
    by (simp add: ex_status)
  show ?thesis using 1 2 3 4 by blast
qed

text \<open>
  Claim C5 as stated fails when one of the two downloads answered with 200 cannot be
  saved: of three payloads, one answers 404 and the last has a URL that ends in a
  slash; \<^verbatim>\<open>open\<close> raises on it, the loop ends in the exception and one image has
  been classified, not two.
\<close>

theorem failed_download_is_skipped_counterexample:
  "map payload_demod ex_slash
     = [Some ''https://h/a/sharp.png'', Some ''https://h/b/gone.png'', Some ''https://h/e/'']
   \<and> map (\<lambda>u. status_code (requests_get ex_env u []))
         [''https://h/a/sharp.png'', ''https://h/b/gone.png'', ''https://h/e/''] = [200, 404, 200]
   \<and> fst (process_payloads ex_env ex_slash s0) = Inl (IsADirectoryError ''satnogs_images/'')
   \<and> classifications (performed s0 (process_payloads ex_env ex_slash s0)) = 1"
  by code_simp

section \<open>The life of a downloaded image\<close>

















end
